theory Spec2Isabelle
  imports Main "HOL-Library.Word"
begin

section \<open>Resource metadata and the EtcFileSpec resource type\<close>

text \<open>
  The file \<^verbatim>\<open>pkg/machinery/resources/files/etcfile_spec.go\<close> declares the resource type
  \<^verbatim>\<open>EtcFileSpec\<close>. It is built from three declarations of the resource runtime library
  (\<^verbatim>\<open>resource.Metadata\<close>, \<^verbatim>\<open>typed.Resource\<close>, \<^verbatim>\<open>meta.ResourceDefinitionSpec\<close>), which
  are embedded here with the fields the data model of the specification gives them.
\<close>

type_synonym Namespace = string
type_synonym Type = string
type_synonym ID = string

text \<open>
  A Go slice is either \<^verbatim>\<open>nil\<close> or a (possibly empty) sequence of elements; the zero value of
  a slice-typed field is \<^verbatim>\<open>nil\<close>, while the literal \<^verbatim>\<open>[]T{}\<close> is empty but not \<^verbatim>\<open>nil\<close>.
\<close>

datatype 'a slice = NilSlice | Slice "'a list"

fun elems :: "'a slice \<Rightarrow> 'a list" where
  "elems NilSlice = []"
| "elems (Slice xs) = xs"

text \<open>
  Modelled from the spec: the version token of a resource (\<^verbatim>\<open>resource.Version\<close>, declared
  in the runtime library), ``a monotonically increasing integer/opaque token''.
  \<^verbatim>\<open>resource.VersionUndefined\<close> is the token of a resource that was never written.
\<close>

datatype Version = VersionUndefined | VersionNumber nat

text \<open>
  Modelled from the spec: ``Version strictly increases on every successful mutation'', and the
  endpoint scenario, in which an update at Version V ``bumps Version to V+1''. A resource
  that was never written counts from zero, so the version that follows
  \<^verbatim>\<open>VersionUndefined\<close> is 1.
\<close>

fun versionNumber :: "Version \<Rightarrow> nat" where
  "versionNumber VersionUndefined = 0"
| "versionNumber (VersionNumber n) = n"

definition nextVersion :: "Version \<Rightarrow> Version" where
  "nextVersion v = VersionNumber (versionNumber v + 1)"

text \<open>Modelled from the spec: \<^verbatim>\<open>Phase: {Running, Tearing Down}\<close>.\<close>

datatype Phase = PhaseRunning | PhaseTearingDown

text \<open>
  Modelled from the spec: the metadata of a resource, ``ID: ResourceID = (Namespace, Type, ID),
  Version, Phase, Owner: optional controller identity, Finalizers: set of strings''. The
  creation and update timestamps are wall-clock values and are left out.
\<close>

record Metadata =
  md_namespace :: Namespace
  md_type :: Type
  md_id :: ID
  md_version :: Version
  md_phase :: Phase
  md_owner :: "string option"
  md_finalizers :: "string set"

text \<open>
  Modelled from the spec: \<^verbatim>\<open>resource.NewMetadata(ns, typ, id, ver)\<close> of the runtime library.
  A new resource is in phase Running, has no owner and no finalizers (section 3, Lifecycle).
\<close>

definition NewMetadata :: "Namespace \<Rightarrow> Type \<Rightarrow> ID \<Rightarrow> Version \<Rightarrow> Metadata" where
  "NewMetadata ns typ ident ver =
     \<lparr>md_namespace = ns, md_type = typ, md_id = ident, md_version = ver,
      md_phase = PhaseRunning, md_owner = None, md_finalizers = {}\<rparr>"

text \<open>
  Modelled from the spec: \<^verbatim>\<open>typed.Resource[T, RD]\<close> of the runtime library, the ``generic
  typed wrapper over an untyped metadata/spec/status triple'' (section 9): a metadata value
  paired with a spec of type \<^verbatim>\<open>T\<close>.
\<close>

record 's Resource =
  Metadata :: Metadata
  Spec :: 's

text \<open>
  \<^verbatim>\<open>(*Metadata).BumpVersion\<close> of the runtime library: the version of the metadata moves to
  the next one, and nothing else changes.
\<close>

definition BumpVersion :: "Metadata \<Rightarrow> Metadata" where
  "BumpVersion md = md\<lparr>md_version := nextVersion (md_version md)\<rparr>"

text \<open>
  \<^verbatim>\<open>typed.NewResource(md, spec)\<close> of the runtime library, which is not part of the
  repository. The constructor keeps both arguments and bumps the version of the metadata
  once before it returns the resource; building a resource is its first write. A resource
  built from metadata at \<^verbatim>\<open>VersionUndefined\<close> therefore carries Version 1. The
  specification is silent on the version a constructor leaves behind.
\<close>

definition NewResource :: "Metadata \<Rightarrow> 's \<Rightarrow> 's Resource" where
  "NewResource md spec = \<lparr>Metadata = BumpVersion md, Spec = spec\<rparr>"

subsection \<open>etcfile\_spec.go\<close>

text \<open>\<^verbatim>\<open>const EtcFileSpecType = resource.Type("EtcFileSpecs.files.talos.dev")\<close>\<close>

definition EtcFileSpecType :: Type where
  "EtcFileSpecType = ''EtcFileSpecs.files.talos.dev''"

text \<open>
  \<^verbatim>\<open>type EtcFileSpecSpec struct { Contents []byte; Mode fs.FileMode }\<close>, where
  \<^verbatim>\<open>fs.FileMode\<close> is a \<^verbatim>\<open>uint32\<close>.
\<close>

record EtcFileSpecSpec =
  Contents :: "8 word slice"
  Mode :: "32 word"

text \<open>The composite literal \<^verbatim>\<open>EtcFileSpecSpec{}\<close>: every field has its zero value.\<close>

definition EtcFileSpecSpec_zero :: EtcFileSpecSpec where
  "EtcFileSpecSpec_zero = \<lparr>Contents = NilSlice, Mode = 0\<rparr>"

type_synonym EtcFileSpec = "EtcFileSpecSpec Resource"

definition NewEtcFileSpec :: "Namespace \<Rightarrow> ID \<Rightarrow> EtcFileSpec" where
  "NewEtcFileSpec namespace ident =
     NewResource (NewMetadata namespace EtcFileSpecType ident VersionUndefined)
       EtcFileSpecSpec_zero"

text \<open>\<^verbatim>\<open>type EtcFileSpecMD struct{}\<close>: a receiver without fields.\<close>

datatype EtcFileSpecMD = EtcFileSpecMD

text \<open>
  Modelled from the spec: the constant \<^verbatim>\<open>NamespaceName\<close> of package \<^verbatim>\<open>files\<close> is declared
  in another file of the package; the file-render scenario of the specification gives the
  namespace of an EtcFileSpec as \<^verbatim>\<open>files\<close>.
\<close>

definition NamespaceName :: Namespace where
  "NamespaceName = ''files''"

text \<open>\<^verbatim>\<open>meta.PrintColumn\<close> of the runtime library: a column name and the path it prints.\<close>

record PrintColumn =
  Name :: string
  JSONPath :: string

text \<open>
  Modelled from the spec: \<^verbatim>\<open>meta.ResourceDefinitionSpec\<close> of the runtime library, the
  registration data of a resource type (``a type name, a default namespace'', section 6),
  with the four fields the composite literal in \<^verbatim>\<open>ResourceDefinition\<close> sets.
\<close>

record ResourceDefinitionSpec =
  Type :: Type
  Aliases :: "Type slice"
  DefaultNamespace :: Namespace
  PrintColumns :: "PrintColumn slice"

text \<open>
  \<^verbatim>\<open>func (EtcFileSpecMD) ResourceDefinition(resource.Metadata, EtcFileSpecSpec)
  meta.ResourceDefinitionSpec\<close>: the receiver and both parameters are unnamed and unused.
\<close>

definition ResourceDefinition ::
  "EtcFileSpecMD \<Rightarrow> Metadata \<Rightarrow> EtcFileSpecSpec \<Rightarrow> ResourceDefinitionSpec" where
  "ResourceDefinition rd md spec =
     \<lparr>Type = EtcFileSpecType, Aliases = Slice [], DefaultNamespace = NamespaceName,
      PrintColumns = Slice []\<rparr>"

section \<open>The update-endpoint integration suite: Kubernetes side\<close>

text \<open>
  \<^verbatim>\<open>internal/integration/api/update-endpoint.go\<close> reads the node objects of the cluster
  through the Kubernetes client. The types below are declared by the Kubernetes API package
  \<^verbatim>\<open>k8s.io/api/core/v1\<close>; of \<^verbatim>\<open>corev1.Node\<close> they keep the fields the file reads
  (\<^verbatim>\<open>Status.Addresses\<close> with \<^verbatim>\<open>Type\<close> and \<^verbatim>\<open>Address\<close>, \<^verbatim>\<open>Status.Conditions\<close> with \<^verbatim>\<open>Type\<close>
  and \<^verbatim>\<open>Status\<close>) and the name of the node. \<^verbatim>\<open>NodeAddressType\<close>, \<^verbatim>\<open>NodeConditionType\<close>
  and \<^verbatim>\<open>ConditionStatus\<close> are string types, compared with \<^verbatim>\<open>==\<close>; a range loop over a
  \<^verbatim>\<open>nil\<close> slice runs no iteration, so the slices are lists.
\<close>

type_synonym NodeAddressType = string
type_synonym NodeConditionType = string
type_synonym ConditionStatus = string

definition NodeInternalIP :: NodeAddressType where
  "NodeInternalIP = ''InternalIP''"

definition NodeReady :: NodeConditionType where
  "NodeReady = ''Ready''"

definition ConditionTrue :: ConditionStatus where
  "ConditionTrue = ''True''"

record NodeAddress =
  addr_Type :: NodeAddressType
  addr_Address :: string

record NodeCondition =
  cond_Type :: NodeConditionType
  cond_Status :: ConditionStatus

record NodeStatus =
  Conditions :: "NodeCondition list"
  Addresses :: "NodeAddress list"

record Node =
  node_Name :: string
  node_Status :: NodeStatus

text \<open>
  Go error values. \<^verbatim>\<open>ApiError\<close> is an error handed back by a remote call,
  \<^verbatim>\<open>Errorf\<close> one built by \<^verbatim>\<open>fmt.Errorf\<close> (its message), \<^verbatim>\<open>ExpectedError\<close> the wrapper
  \<^verbatim>\<open>retry.ExpectedError\<close> puts around an error that should be retried, \<^verbatim>\<open>TimeoutError\<close>
  and \<^verbatim>\<open>ErrorSet\<close> what the retry library returns.
\<close>

datatype error =
    ApiError string
  | Errorf string
  | ExpectedError error
  | TimeoutError
  | ErrorSet "error list"

text \<open>
  The inner loop of \<^verbatim>\<open>getNodeByInternalIP\<close>:
  \<^verbatim>\<open>for _, address := range item.Status.Addresses\<close>, which leaves the function as soon as
  an address of type \<^verbatim>\<open>NodeInternalIP\<close> equals the IP; \<^verbatim>\<open>True\<close> stands for that return.
\<close>

fun addressLoop :: "NodeAddress list \<Rightarrow> string \<Rightarrow> bool" where
  "addressLoop [] internalIP = False"
| "addressLoop (address # rest) internalIP =
     (if addr_Type address = NodeInternalIP
      then (if addr_Address address = internalIP then True else addressLoop rest internalIP)
      else addressLoop rest internalIP)"

text \<open>The outer loop, \<^verbatim>\<open>for _, item := range nodeList.Items\<close>.\<close>

fun itemLoop :: "Node list \<Rightarrow> string \<Rightarrow> Node option" where
  "itemLoop [] internalIP = None"
| "itemLoop (item # rest) internalIP =
     (if addressLoop (Addresses (node_Status item)) internalIP then Some item
      else itemLoop rest internalIP)"

text \<open>
  \<^verbatim>\<open>getNodeByInternalIP\<close>. Its first argument is the outcome of
  \<^verbatim>\<open>suite.Clientset.CoreV1().Nodes().List(suite.ctx, metav1.ListOptions{})\<close> at the time of the
  call: an error, or the items of the node list. The Go function returns
  \<^verbatim>\<open>(*corev1.Node, error)\<close> with the pointer \<^verbatim>\<open>nil\<close> in exactly the two returns that carry
  an error, so \<^verbatim>\<open>Inl err\<close> is \<^verbatim>\<open>(nil, err)\<close> and \<^verbatim>\<open>Inr item\<close> is \<^verbatim>\<open>(&item, nil)\<close>.
\<close>

definition getNodeByInternalIP :: "error + Node list \<Rightarrow> string \<Rightarrow> error + Node" where
  "getNodeByInternalIP nodeList internalIP =
     (case nodeList of
        Inl err \<Rightarrow> Inl err
      | Inr items \<Rightarrow>
          (case itemLoop items internalIP of
             Some item \<Rightarrow> Inr item
           | None \<Rightarrow> Inl (Errorf (''node with internal IP '' @ internalIP @ '' not found''))))"

text \<open>The loop of \<^verbatim>\<open>getNodeReadinessStatus\<close> over \<^verbatim>\<open>node.Status.Conditions\<close>.\<close>

fun conditionLoop :: "NodeCondition list \<Rightarrow> ConditionStatus option" where
  "conditionLoop [] = None"
| "conditionLoop (condition # rest) =
     (if cond_Type condition = NodeReady then Some (cond_Status condition)
      else conditionLoop rest)"

text \<open>
  \<^verbatim>\<open>getNodeReadinessStatus\<close> returns \<^verbatim>\<open>(corev1.ConditionStatus, error)\<close>; both components
  are kept, the error being \<^verbatim>\<open>None\<close> for \<^verbatim>\<open>nil\<close>.
\<close>

definition getNodeReadinessStatus ::
  "error + Node list \<Rightarrow> string \<Rightarrow> ConditionStatus \<times> error option" where
  "getNodeReadinessStatus nodeList nodeInternalIP =
     (case getNodeByInternalIP nodeList nodeInternalIP of
        Inl err \<Rightarrow> ('''', Some err)
      | Inr node \<Rightarrow>
          (case conditionLoop (Conditions (node_Status node)) of
             Some status \<Rightarrow> (status, None)
           | None \<Rightarrow>
               ('''', Some (Errorf (''node '' @ nodeInternalIP @ '' has no readiness condition'')))))"

text \<open>
  Modelled from the spec: the poll helper, ``a bounded-backoff poll helper with a predicate
  function and an overall deadline'' (section 9). In the source it is
  \<^verbatim>\<open>retry.Constant(d).Retry(f)\<close> of the library \<^verbatim>\<open>github.com/talos-systems/go-retry\<close>,
  which is not part of the repository.
  \<^verbatim>\<open>retry.Constant(d).Retry(f)\<close> calls \<^verbatim>\<open>f\<close>; on \<^verbatim>\<open>nil\<close> it returns \<^verbatim>\<open>nil\<close>; on an error
  that is not an \<^verbatim>\<open>ExpectedError\<close> it returns the errors collected so far; on an
  \<^verbatim>\<open>ExpectedError\<close> it waits for the next tick and calls \<^verbatim>\<open>f\<close> again, unless the deadline
  \<^verbatim>\<open>d\<close> has passed, in which case it returns the collected errors and a timeout error.
  The first call is made before the deadline is looked at. The wall clock is represented by
  the number of further attempts that fit into the deadline; \<^verbatim>\<open>f k\<close> is the outcome of the
  attempt number \<^verbatim>\<open>k\<close>.
\<close>

fun isExpected :: "error \<Rightarrow> bool" where
  "isExpected (ExpectedError e) = True"
| "isExpected e = False"

definition appendError :: "error list \<Rightarrow> error \<Rightarrow> error list" where
  "appendError errs err = (if err \<in> set errs then errs else errs @ [err])"

fun retryLoop :: "nat \<Rightarrow> (nat \<Rightarrow> error option) \<Rightarrow> nat \<Rightarrow> error list \<Rightarrow> error option" where
  "retryLoop 0 f k errs =
     (case f k of
        None \<Rightarrow> None
      | Some err \<Rightarrow>
          (if isExpected err then Some (ErrorSet (appendError (appendError errs err) TimeoutError))
           else Some (ErrorSet (appendError errs err))))"
| "retryLoop (Suc further) f k errs =
     (case f k of
        None \<Rightarrow> None
      | Some err \<Rightarrow>
          (if isExpected err then retryLoop further f (Suc k) (appendError errs err)
           else Some (ErrorSet (appendError errs err))))"

definition Retry :: "nat \<Rightarrow> (nat \<Rightarrow> error option) \<Rightarrow> error option" where
  "Retry further f = retryLoop further f 0 []"

text \<open>
  \<^verbatim>\<open>waitForNodeReadinessStatus\<close>. \<^verbatim>\<open>further\<close> is the number of attempts after the first
  that fit into the five minutes of \<^verbatim>\<open>retry.Constant(5 * time.Minute)\<close>, and \<^verbatim>\<open>nodeLists k\<close>
  is the outcome of listing the nodes during attempt \<^verbatim>\<open>k\<close>. The function passed to
  \<^verbatim>\<open>Retry\<close> is the closure of the source.
\<close>

definition waitForNodeReadinessStatus ::
  "nat \<Rightarrow> (nat \<Rightarrow> error + Node list) \<Rightarrow> string \<Rightarrow> (ConditionStatus \<Rightarrow> bool) \<Rightarrow> error option" where
  "waitForNodeReadinessStatus further nodeLists nodeInternalIP checkFn =
     Retry further (\<lambda>k.
       (case getNodeReadinessStatus (nodeLists k) nodeInternalIP of
          (readinessStatus, Some err) \<Rightarrow> Some err
        | (readinessStatus, None) \<Rightarrow>
            (if \<not> checkFn readinessStatus
             then Some (ExpectedError (Errorf (''node readiness status is '' @ readinessStatus)))
             else None)))"

text \<open>The two predicates of \<^verbatim>\<open>TestUpdateControlPlaneEndpoint\<close>.\<close>

definition nodeReady :: "ConditionStatus \<Rightarrow> bool" where
  "nodeReady status = (status = ConditionTrue)"

definition nodeNotReady :: "ConditionStatus \<Rightarrow> bool" where
  "nodeNotReady status = (status \<noteq> ConditionTrue)"

text \<open>
  A node object as the Kubernetes API reports it for a control-plane node, used to run the
  functions above on concrete input.
\<close>

definition sample_node :: Node where
  "sample_node =
     \<lparr>node_Name = ''master-1'',
      node_Status =
        \<lparr>Conditions = [\<lparr>cond_Type = ''MemoryPressure'', cond_Status = ''False''\<rparr>,
                       \<lparr>cond_Type = ''Ready'', cond_Status = ''True''\<rparr>],
         Addresses = [\<lparr>addr_Type = ''Hostname'', addr_Address = ''master-1''\<rparr>,
                      \<lparr>addr_Type = ''InternalIP'', addr_Address = ''10.5.0.2''\<rparr>]\<rparr>\<rparr>"

section \<open>The update-endpoint integration suite: Talos side\<close>

text \<open>
  \<^verbatim>\<open>updateEndpointURL\<close> works on the machine configuration type \<^verbatim>\<open>v1alpha1.Config\<close>,
  which is declared in \<^verbatim>\<open>pkg/machinery/config/types/v1alpha1\<close>. The function follows the
  path \<^verbatim>\<open>ClusterConfig.ControlPlane.Endpoint.URL\<close>; each of the four is a pointer
  (\<^verbatim>\<open>*ClusterConfig\<close>, \<^verbatim>\<open>*ControlPlaneConfig\<close>, \<^verbatim>\<open>*Endpoint\<close>, and \<^verbatim>\<open>*url.URL\<close> embedded in
  \<^verbatim>\<open>Endpoint\<close>), so each is an option with \<^verbatim>\<open>None\<close> for \<^verbatim>\<open>nil\<close>. The type \<^verbatim>\<open>'u\<close> is
  \<^verbatim>\<open>url.URL\<close> of the Go standard library, and \<^verbatim>\<open>'o\<close> stands for all the other fields of
  the respective struct.
\<close>

record 'u Endpoint =
  URL :: "'u option"

record ('u, 'o) ControlPlaneConfig =
  Endpoint :: "'u Endpoint option"
  ControlPlaneOther :: 'o

record ('u, 'o) ClusterConfig =
  ControlPlane :: "('u, 'o) ControlPlaneConfig option"
  ClusterOther :: 'o

record ('u, 'o) Config =
  ClusterConfig :: "('u, 'o) ClusterConfig option"
  ConfigOther :: 'o

text \<open>
  \<^verbatim>\<open>config.Provider\<close>: what \<^verbatim>\<open>ReadConfigFromNode\<close> returns. \<^verbatim>\<open>nodeConfig.Raw()\<close> is either a
  \<^verbatim>\<open>*v1alpha1.Config\<close> or a value of some other type, for which the type assertion
  \<^verbatim>\<open>nodeConfig.Raw().(*v1alpha1.Config)\<close> yields \<^verbatim>\<open>ok = false\<close>.
\<close>

datatype ('u, 'o) Provider = V1Alpha1 "('u, 'o) Config" | OtherRaw

text \<open>\<^verbatim>\<open>machineapi.ApplyConfigurationRequest\<close> and its mode enumeration.\<close>

datatype ApplyConfigurationRequest_Mode = REBOOT | AUTO | NO_REBOOT | STAGED

record 'd ApplyConfigurationRequest =
  req_Data :: 'd
  req_Mode :: ApplyConfigurationRequest_Mode

text \<open>
  The collaborators \<^verbatim>\<open>updateEndpointURL\<close> calls, as fields of the suite. \<^verbatim>\<open>'w\<close> is the state
  of the cluster under test and \<^verbatim>\<open>'d\<close> the serialized configuration (\<^verbatim>\<open>[]byte\<close>).
  \<^item> \<^verbatim>\<open>ReadConfigFromNode\<close>: \<^verbatim>\<open>suite.ReadConfigFromNode(nodeCtx)\<close>, for the node that
    \<^verbatim>\<open>client.WithNodes(suite.ctx, nodeIP)\<close> selects;
  \<^item> \<^verbatim>\<open>Parse\<close>: \<^verbatim>\<open>url.Parse\<close>; \<^verbatim>\<open>String\<close>: \<^verbatim>\<open>(*url.URL).String\<close>;
  \<^item> \<^verbatim>\<open>Bytes\<close>: \<^verbatim>\<open>(*v1alpha1.Config).Bytes\<close>;
  \<^item> \<^verbatim>\<open>ApplyConfiguration\<close>: \<^verbatim>\<open>suite.Client.ApplyConfiguration(nodeCtx, request)\<close>, which
    changes the state of the cluster.
\<close>

record ('w, 'u, 'o, 'd) Suite =
  ReadConfigFromNode :: "'w \<Rightarrow> string \<Rightarrow> error + ('u, 'o) Provider"
  Parse :: "string \<Rightarrow> error + 'u"
  String :: "'u \<Rightarrow> string"
  Bytes :: "('u, 'o) Config \<Rightarrow> error + 'd"
  ApplyConfiguration :: "'w \<Rightarrow> string \<Rightarrow> 'd ApplyConfigurationRequest \<Rightarrow> error + 'w"

text \<open>
  How a call of \<^verbatim>\<open>updateEndpointURL\<close> can end without returning: a failed
  \<^verbatim>\<open>suite.Require().NoError(err)\<close>, a failed \<^verbatim>\<open>suite.Require().True(ok, msg)\<close> (both stop the
  test), or a nil pointer dereference.
\<close>

datatype failure = RequireNoError error | RequireTrue string | NilPointerDereference

text \<open>
  \<^verbatim>\<open>endpoint := nodeConfigRaw.ClusterConfig.ControlPlane.Endpoint\<close> followed by the read of
  \<^verbatim>\<open>endpoint.URL\<close>: the URL the configuration holds, or the panic of the first \<^verbatim>\<open>nil\<close> on
  the path (\<^verbatim>\<open>String\<close> has a pointer receiver and reads the fields of the URL).
\<close>

definition endpointURL :: "('u, 'o) Config \<Rightarrow> failure + 'u" where
  "endpointURL nodeConfigRaw =
     (case ClusterConfig nodeConfigRaw of
        None \<Rightarrow> Inl NilPointerDereference
      | Some cluster \<Rightarrow>
          (case ControlPlane cluster of
             None \<Rightarrow> Inl NilPointerDereference
           | Some controlPlane \<Rightarrow>
               (case Endpoint controlPlane of
                  None \<Rightarrow> Inl NilPointerDereference
                | Some endpoint \<Rightarrow>
                    (case URL endpoint of
                       None \<Rightarrow> Inl NilPointerDereference
                     | Some u \<Rightarrow> Inr u))))"

text \<open>
  \<^verbatim>\<open>endpoint.URL = newEndpointURL\<close>: \<^verbatim>\<open>endpoint\<close> points to the \<^verbatim>\<open>Endpoint\<close> object of
  \<^verbatim>\<open>nodeConfigRaw\<close>, so the assignment changes \<^verbatim>\<open>nodeConfigRaw\<close> at the end of the path and
  nowhere else.
\<close>

definition setEndpointURL :: "('u, 'o) Config \<Rightarrow> 'u \<Rightarrow> ('u, 'o) Config" where
  "setEndpointURL nodeConfigRaw newEndpointURL =
     nodeConfigRaw\<lparr>ClusterConfig :=
       map_option (\<lambda>cluster. cluster\<lparr>ControlPlane :=
         map_option (\<lambda>controlPlane. controlPlane\<lparr>Endpoint :=
           map_option (\<lambda>endpoint. endpoint\<lparr>URL := Some newEndpointURL\<rparr>)
             (Endpoint controlPlane)\<rparr>)
           (ControlPlane cluster)\<rparr>)
         (ClusterConfig nodeConfigRaw)\<rparr>"

text \<open>
  \<^verbatim>\<open>updateEndpointURL\<close>, statement by statement. It returns \<^verbatim>\<open>oldURL\<close> and leaves the cluster
  in the state \<^verbatim>\<open>ApplyConfiguration\<close> produced.
\<close>

definition updateEndpointURL ::
  "('w, 'u, 'o, 'd) Suite \<Rightarrow> 'w \<Rightarrow> string \<Rightarrow> string \<Rightarrow> failure + string \<times> 'w" where
  "updateEndpointURL suite w nodeIP newURL =
     (case ReadConfigFromNode suite w nodeIP of
        Inl err \<Rightarrow> Inl (RequireNoError err)
      | Inr nodeConfig \<Rightarrow>
          (case nodeConfig of
             OtherRaw \<Rightarrow> Inl (RequireTrue ''node config is not of type v1alpha1.Config'')
           | V1Alpha1 nodeConfigRaw \<Rightarrow>
               (case Parse suite newURL of
                  Inl err \<Rightarrow> Inl (RequireNoError err)
                | Inr newEndpointURL \<Rightarrow>
                    (case endpointURL nodeConfigRaw of
                       Inl panic \<Rightarrow> Inl panic
                     | Inr u \<Rightarrow>
                         (let oldURL = String suite u in
                          case Bytes suite (setEndpointURL nodeConfigRaw newEndpointURL) of
                            Inl err \<Rightarrow> Inl (RequireNoError err)
                          | Inr bytes \<Rightarrow>
                              (case ApplyConfiguration suite w nodeIP
                                      \<lparr>req_Data = bytes, req_Mode = NO_REBOOT\<rparr> of
                                 Inl err \<Rightarrow> Inl (RequireNoError err)
                               | Inr w' \<Rightarrow> Inr (oldURL, w')))))))"

text \<open>
  A suite to run \<^verbatim>\<open>updateEndpointURL\<close> on: the cluster is one node whose state is its
  machine configuration, a URL is kept as its text, the other fields of the configuration
  are kept as text, and a configuration is its own serialized form.
\<close>

definition sample_config :: "(string, string) Config" where
  "sample_config =
     \<lparr>ClusterConfig = Some
        \<lparr>ControlPlane = Some
           \<lparr>Endpoint = Some \<lparr>URL = Some ''https://10.5.0.2:6443''\<rparr>,
            ControlPlaneOther = ''localAPIServerPort: 0''\<rparr>,
         ClusterOther = ''clusterName: talos-default''\<rparr>,
      ConfigOther = ''version: v1alpha1''\<rparr>"

definition sample_suite ::
  "((string, string) Config, string, string, (string, string) Config) Suite" where
  "sample_suite =
     \<lparr>ReadConfigFromNode = (\<lambda>w nodeIP. Inr (V1Alpha1 w)),
      Parse = (\<lambda>s. Inr s),
      String = (\<lambda>u. u),
      Bytes = (\<lambda>c. Inr c),
      ApplyConfiguration = (\<lambda>w nodeIP request. Inr (req_Data request))\<rparr>"

section \<open>The resource store of the specification\<close>

text \<open>
  The resource store itself (its \<^verbatim>\<open>Create\<close>, \<^verbatim>\<open>Update\<close>, \<^verbatim>\<open>MarkForDestroy\<close>,
  \<^verbatim>\<open>AddFinalizer\<close>, \<^verbatim>\<open>RemoveFinalizer\<close> and \<^verbatim>\<open>Destroy\<close>) is not among the source files at
  hand, which only declare a resource type for it and test a cluster built on it. The
  definitions of this section follow sections 3, 4.1 and 7 of the specification.
\<close>

text \<open>Modelled from the spec: \<^verbatim>\<open>ResourceID = (Namespace: string, Type: string, ID: string)\<close>.\<close>

type_synonym ResourceID = "Namespace \<times> Type \<times> ID"

text \<open>
  Modelled from the spec: a stored resource, \<^verbatim>\<open>{Metadata, Spec, Status}\<close>, where the status
  ``may be absent until first observed''.
\<close>

record ('s, 't) StoredResource = "'s Resource" +
  Status :: "'t option"

definition resourceID :: "('s, 't) StoredResource \<Rightarrow> ResourceID" where
  "resourceID r =
     (md_namespace (Metadata r), md_type (Metadata r), md_id (Metadata r))"

text \<open>
  Modelled from the spec: the store, ``an in-memory graph keyed by (namespace, type, id)''.
  The operations are atomic per ID, so each is a function from the store before it to the
  store after it.
\<close>

type_synonym ('s, 't) Store = "ResourceID \<rightharpoonup> ('s, 't) StoredResource"

text \<open>
  Modelled from the spec: the errors of the store in the taxonomy of section 7, and
  \<^verbatim>\<open>Conflict\<close>, with which \<^verbatim>\<open>Destroy\<close> fails (section 4.1).
\<close>

datatype StoreError = NotFound | AlreadyExists | VersionConflict | Forbidden | Conflict

text \<open>Every successful mutation of a stored resource bumps its version.\<close>

definition bumpVersion :: "('s, 't) StoredResource \<Rightarrow> ('s, 't) StoredResource" where
  "bumpVersion r =
     r\<lparr>Metadata := (Metadata r)\<lparr>md_version := nextVersion (md_version (Metadata r))\<rparr>\<rparr>"

text \<open>Modelled from the spec: \<^verbatim>\<open>Get(id) -> (Resource, found)\<close>, ``no error for absence''.\<close>

definition Get :: "('s, 't) Store \<Rightarrow> ResourceID \<Rightarrow> ('s, 't) StoredResource option" where
  "Get store rid = store rid"

text \<open>
  Modelled from the spec: \<^verbatim>\<open>Create(resource) -> Resource | fails with AlreadyExists\<close>. The
  resource is ``Created (Phase=Running, empty Status)''.
\<close>

definition Create ::
  "('s, 't) Store \<Rightarrow> 's Resource \<Rightarrow> StoreError + ('s, 't) StoredResource \<times> ('s, 't) Store" where
  "Create store resource =
     (let r = bumpVersion
            \<lparr>Metadata = (Metadata resource)\<lparr>md_phase := PhaseRunning\<rparr>,
             Spec = Spec resource, Status = None\<rparr>
      in if store (resourceID r) \<noteq> None then Inl AlreadyExists
         else Inr (r, store(resourceID r \<mapsto> r)))"

text \<open>
  Modelled from the spec: \<^verbatim>\<open>Update(id, expectedVersion, mutateFn) -> Resource | fails with
  VersionConflict when expectedVersion stale, NotFound when absent, Forbidden when caller is
  not owner for Spec fields\<close>. The mutation function acts on the payload (spec and status);
  identity, owner and finalizers are not its to change. ``The Store validates the optimistic
  version, applies the mutation'': the version is compared before the mutation function is
  run. ``A resource with Phase=Tearing Down cannot accept further Spec mutations''; the
  specification names no error for that, and \<^verbatim>\<open>Conflict\<close>, the error of the other phase
  check, is used. The data model has no field for the ``designated status-writer'', so a
  change of the status is not restricted. Every successful update bumps the version.
\<close>

definition Update ::
  "('s, 't) Store \<Rightarrow> string option \<Rightarrow> ResourceID \<Rightarrow> Version
     \<Rightarrow> ('s \<times> 't option \<Rightarrow> 's \<times> 't option)
     \<Rightarrow> StoreError + ('s, 't) StoredResource \<times> ('s, 't) Store" where
  "Update store caller rid expectedVersion mutateFn =
     (case store rid of
        None \<Rightarrow> Inl NotFound
      | Some r \<Rightarrow>
          if md_version (Metadata r) \<noteq> expectedVersion then Inl VersionConflict
          else
            (let (spec, status) = mutateFn (Spec r, Status r) in
             if spec \<noteq> Spec r \<and> md_owner (Metadata r) \<noteq> caller then Inl Forbidden
             else if spec \<noteq> Spec r \<and> md_phase (Metadata r) = PhaseTearingDown
             then Inl Conflict
             else
               (let r' = bumpVersion (r\<lparr>Spec := spec, Status := status\<rparr>)
                in Inr (r', store(rid \<mapsto> r')))))"

text \<open>
  Modelled from the spec: \<^verbatim>\<open>MarkForDestroy(id) -> fails with NotFound\<close>: ``sets
  Phase=Tearing Down; idempotent''.
\<close>

definition MarkForDestroy ::
  "('s, 't) Store \<Rightarrow> ResourceID \<Rightarrow> StoreError + ('s, 't) Store" where
  "MarkForDestroy store rid =
     (case store rid of
        None \<Rightarrow> Inl NotFound
      | Some r \<Rightarrow>
          if md_phase (Metadata r) = PhaseTearingDown then Inr store
          else Inr (store(rid \<mapsto>
                 bumpVersion (r\<lparr>Metadata := (Metadata r)\<lparr>md_phase := PhaseTearingDown\<rparr>\<rparr>))))"

text \<open>Modelled from the spec: \<^verbatim>\<open>AddFinalizer(id, token)\<close>, idempotent.\<close>

definition AddFinalizer ::
  "('s, 't) Store \<Rightarrow> ResourceID \<Rightarrow> string \<Rightarrow> StoreError + ('s, 't) Store" where
  "AddFinalizer store rid token =
     (case store rid of
        None \<Rightarrow> Inl NotFound
      | Some r \<Rightarrow>
          if token \<in> md_finalizers (Metadata r) then Inr store
          else Inr (store(rid \<mapsto>
                 bumpVersion (r\<lparr>Metadata := (Metadata r)
                   \<lparr>md_finalizers := insert token (md_finalizers (Metadata r))\<rparr>\<rparr>))))"

text \<open>
  Modelled from the spec: \<^verbatim>\<open>RemoveFinalizer(id, token)\<close>, idempotent; ``removing the last
  finalizer while Tearing Down triggers physical destroy''.
\<close>

definition RemoveFinalizer ::
  "('s, 't) Store \<Rightarrow> ResourceID \<Rightarrow> string \<Rightarrow> StoreError + ('s, 't) Store" where
  "RemoveFinalizer store rid token =
     (case store rid of
        None \<Rightarrow> Inl NotFound
      | Some r \<Rightarrow>
          if token \<notin> md_finalizers (Metadata r) then Inr store
          else
            (let r' = bumpVersion (r\<lparr>Metadata := (Metadata r)
                        \<lparr>md_finalizers := md_finalizers (Metadata r) - {token}\<rparr>\<rparr>)
             in if md_phase (Metadata r') = PhaseTearingDown \<and> md_finalizers (Metadata r') = {}
                then Inr (store(rid := None))
                else Inr (store(rid \<mapsto> r'))))"

text \<open>
  Modelled from the spec: \<^verbatim>\<open>Destroy(id, expectedVersion) -> fails with Conflict when
  Finalizers non-empty or Phase != Tearing Down\<close>. An absent resource is \<^verbatim>\<open>NotFound\<close> and a
  stale expected version is a \<^verbatim>\<open>VersionConflict\<close>, as for \<^verbatim>\<open>Update\<close>.
\<close>

definition Destroy ::
  "('s, 't) Store \<Rightarrow> ResourceID \<Rightarrow> Version \<Rightarrow> StoreError + ('s, 't) Store" where
  "Destroy store rid expectedVersion =
     (case store rid of
        None \<Rightarrow> Inl NotFound
      | Some r \<Rightarrow>
          if md_finalizers (Metadata r) \<noteq> {} \<or> md_phase (Metadata r) \<noteq> PhaseTearingDown
          then Inl Conflict
          else if md_version (Metadata r) \<noteq> expectedVersion then Inl VersionConflict
          else Inr (store(rid := None)))"

text \<open>
  The mutating calls as values, and a client that issues a sequence of them: ``Store errors
  are returned synchronously to the caller'', and a call that fails leaves the store as it
  was.
\<close>

datatype ('s, 't) Call =
    CallCreate "'s Resource"
  | CallUpdate "string option" ResourceID Version "'s \<times> 't option \<Rightarrow> 's \<times> 't option"
  | CallMarkForDestroy ResourceID
  | CallAddFinalizer ResourceID string
  | CallRemoveFinalizer ResourceID string
  | CallDestroy ResourceID Version

fun call :: "('s, 't) Store \<Rightarrow> ('s, 't) Call \<Rightarrow> StoreError + ('s, 't) Store" where
  "call store (CallCreate resource) = map_sum id snd (Create store resource)"
| "call store (CallUpdate caller rid expectedVersion mutateFn) =
     map_sum id snd (Update store caller rid expectedVersion mutateFn)"
| "call store (CallMarkForDestroy rid) = MarkForDestroy store rid"
| "call store (CallAddFinalizer rid token) = AddFinalizer store rid token"
| "call store (CallRemoveFinalizer rid token) = RemoveFinalizer store rid token"
| "call store (CallDestroy rid expectedVersion) = Destroy store rid expectedVersion"

fun calls ::
  "('s, 't) Store \<Rightarrow> ('s, 't) Call list \<Rightarrow> ('s, 't) Store \<times> StoreError option list" where
  "calls store [] = (store, [])"
| "calls store (c # cs) =
     (case call store c of
        Inl err \<Rightarrow> (let (store', errs) = calls store cs in (store', Some err # errs))
      | Inr store1 \<Rightarrow> (let (store', errs) = calls store1 cs in (store', None # errs)))"

text \<open>
  The resource of the endpoint scenario: the control-plane endpoint as a resource whose
  spec is the URL, owned by a controller, at Version 7, and a store that holds it. The second
  store holds the same resource with a finalizer attached and marked for destruction.
\<close>

definition endpoint_id :: ResourceID where
  "endpoint_id = (''config'', ''Endpoints.cluster.talos.dev'', ''controlplane'')"

definition endpoint_resource :: "(string, string) StoredResource" where
  "endpoint_resource =
     \<lparr>Metadata =
        \<lparr>md_namespace = ''config'', md_type = ''Endpoints.cluster.talos.dev'',
         md_id = ''controlplane'', md_version = VersionNumber 7, md_phase = PhaseRunning,
         md_owner = Some ''config.EndpointController'', md_finalizers = {}\<rparr>,
      Spec = ''https://10.5.0.2:6443'', Status = None\<rparr>"

definition endpoint_store :: "(string, string) Store" where
  "endpoint_store = Map.empty(endpoint_id \<mapsto> endpoint_resource)"

definition held_resource :: "(string, string) StoredResource" where
  "held_resource =
     endpoint_resource\<lparr>Metadata := (Metadata endpoint_resource)
       \<lparr>md_version := VersionNumber 9, md_phase := PhaseTearingDown,
        md_finalizers := {''kubelet''}\<rparr>\<rparr>"

definition held_store :: "(string, string) Store" where
  "held_store = Map.empty(endpoint_id \<mapsto> held_resource)"

definition released_store :: "(string, string) Store" where
  "released_store =
     Map.empty(endpoint_id \<mapsto>
       held_resource\<lparr>Metadata := (Metadata held_resource)\<lparr>md_finalizers := {}\<rparr>\<rparr>)"

text \<open>The mutation of the endpoint scenario: it replaces the URL and keeps the status.\<close>

definition set_url :: "string \<Rightarrow> string \<times> string option \<Rightarrow> string \<times> string option" where
  "set_url newURL payload = (newURL, snd payload)"

section \<open>Properties of the EtcFileSpec resource type\<close>

text \<open>
  C3. For every metadata value and every EtcFileSpecSpec value, ResourceDefinition returns the
  same ResourceDefinitionSpec: its Type is "EtcFileSpecs.files.talos.dev", its
  DefaultNamespace is NamespaceName, and its Aliases and PrintColumns are empty. The
  registration data does not depend on the arguments.
\<close>

theorem ResourceDefinition_constant:
  "ResourceDefinition rd md spec = ResourceDefinition rd' md' spec'
   \<and> Type (ResourceDefinition rd md spec) = ''EtcFileSpecs.files.talos.dev''
   \<and> DefaultNamespace (ResourceDefinition rd md spec) = NamespaceName
   \<and> elems (Aliases (ResourceDefinition rd md spec)) = []
   \<and> elems (PrintColumns (ResourceDefinition rd md spec)) = []"
  by (simp add: ResourceDefinition_def EtcFileSpecType_def)

text \<open>
  C7, as amended. For every namespace and id, NewEtcFileSpec returns a resource whose
  metadata carries exactly that namespace, the type "EtcFileSpecs.files.talos.dev" and that
  id, whose Version is 1 (VersionUndefined is the version NewEtcFileSpec hands to
  NewMetadata, and the constructor of the resource bumps it once), and whose spec is the zero
  value of EtcFileSpecSpec: nil Contents and file mode 0.
\<close>

theorem NewEtcFileSpec_initial:
  "md_namespace (Metadata (NewEtcFileSpec namespace ident)) = namespace
   \<and> md_type (Metadata (NewEtcFileSpec namespace ident)) = ''EtcFileSpecs.files.talos.dev''
   \<and> md_id (Metadata (NewEtcFileSpec namespace ident)) = ident
   \<and> md_version (Metadata (NewEtcFileSpec namespace ident)) = VersionNumber 1
   \<and> Contents (Spec (NewEtcFileSpec namespace ident)) = NilSlice
   \<and> Mode (Spec (NewEtcFileSpec namespace ident)) = 0"
  by (simp add: NewEtcFileSpec_def NewResource_def BumpVersion_def nextVersion_def
      NewMetadata_def EtcFileSpecType_def EtcFileSpecSpec_zero_def)

text \<open>
  C7, as stated, says that the Version of the resource NewEtcFileSpec returns is
  VersionUndefined. For the EtcFileSpec "hosts" of the namespace "files" the Version is 1.
\<close>

theorem NewEtcFileSpec_version_counterexample:
  "md_version (Metadata (NewEtcFileSpec ''files'' ''hosts'')) = VersionNumber 1
   \<and> md_version (Metadata (NewEtcFileSpec ''files'' ''hosts'')) \<noteq> VersionUndefined"
  by (simp add: NewEtcFileSpec_def NewResource_def BumpVersion_def nextVersion_def
      NewMetadata_def)

section \<open>Properties of the node lookup and of the readiness poll\<close>

lemma addressLoop_iff:
  "addressLoop addrs ip \<longleftrightarrow>
     (\<exists>a\<in>set addrs. addr_Type a = NodeInternalIP \<and> addr_Address a = ip)"
  by (induction addrs) auto

lemma itemLoop_Some:
  "itemLoop items ip = Some item \<Longrightarrow>
     item \<in> set items \<and> addressLoop (Addresses (node_Status item)) ip"
  by (induction items) (auto split: if_splits)

lemma itemLoop_None:
  "itemLoop items ip = None \<longleftrightarrow>
     (\<forall>item\<in>set items. \<not> addressLoop (Addresses (node_Status item)) ip)"
  by (induction items) auto

text \<open>
  C8. When the node list was obtained, getNodeByInternalIP returns a node of the list that has
  a Status address of type NodeInternalIP equal to the argument IP whenever such a node
  exists, and it returns the error "node with internal IP ... not found" (and no node)
  exactly when no listed node has such an address.
\<close>

theorem getNodeByInternalIP_found_iff_listed:
  "((\<exists>item\<in>set items. \<exists>a\<in>set (Addresses (node_Status item)).
        addr_Type a = NodeInternalIP \<and> addr_Address a = internalIP)
    \<longrightarrow> (\<exists>node. getNodeByInternalIP (Inr items) internalIP = Inr node \<and> node \<in> set items
          \<and> (\<exists>a\<in>set (Addresses (node_Status node)).
                addr_Type a = NodeInternalIP \<and> addr_Address a = internalIP)))
   \<and> (getNodeByInternalIP (Inr items) internalIP
         = Inl (Errorf (''node with internal IP '' @ internalIP @ '' not found''))
      \<longleftrightarrow> \<not> (\<exists>item\<in>set items. \<exists>a\<in>set (Addresses (node_Status item)).
                addr_Type a = NodeInternalIP \<and> addr_Address a = internalIP))"
proof (cases "itemLoop items internalIP")
  case None
  then show ?thesis
    using itemLoop_None [of items internalIP]
    by (simp add: getNodeByInternalIP_def addressLoop_iff)
next
  case (Some item)
  then show ?thesis
    using itemLoop_Some [OF Some] itemLoop_None [of items internalIP]
    by (simp add: getNodeByInternalIP_def addressLoop_iff)
qed

theorem getNodeByInternalIP_found_iff_listed_witness:
  "(\<exists>item\<in>set [sample_node]. \<exists>a\<in>set (Addresses (node_Status item)).
        addr_Type a = NodeInternalIP \<and> addr_Address a = ''10.5.0.2'')
   \<and> getNodeByInternalIP (Inr [sample_node]) ''10.5.0.2'' = Inr sample_node
   \<and> \<not> (\<exists>item\<in>set [sample_node]. \<exists>a\<in>set (Addresses (node_Status item)).
        addr_Type a = NodeInternalIP \<and> addr_Address a = ''10.5.0.3'')
   \<and> getNodeByInternalIP (Inr [sample_node]) ''10.5.0.3''
       = Inl (Errorf ''node with internal IP 10.5.0.3 not found'')"
  using getNodeByInternalIP_found_iff_listed [of "[sample_node]" "''10.5.0.2''"]
    getNodeByInternalIP_found_iff_listed [of "[sample_node]" "''10.5.0.3''"]
  by (simp add: sample_node_def NodeInternalIP_def)

lemma conditionLoop_first:
  "\<forall>c\<in>set pre. cond_Type c \<noteq> NodeReady \<Longrightarrow> cond_Type c = NodeReady \<Longrightarrow>
   conditionLoop (pre @ c # post) = Some (cond_Status c)"
  by (induction pre) auto

lemma conditionLoop_None:
  "conditionLoop cs = None \<longleftrightarrow> (\<forall>c\<in>set cs. cond_Type c \<noteq> NodeReady)"
  by (induction cs) auto

text \<open>
  C9. getNodeReadinessStatus returns the Status of the first condition of Type NodeReady
  among the conditions of the matched node, with a nil error. When the node cannot be found
  it returns the empty status together with the error of the lookup, and when the node has
  no condition of Type NodeReady it returns the empty status together with the error
  "node ... has no readiness condition": a missing readiness condition is an error, not a
  default status.
\<close>

theorem getNodeReadinessStatus_first_ready_or_error:
  "(getNodeByInternalIP nodeList ip = Inr node
      \<and> Conditions (node_Status node) = pre @ c # post
      \<and> (\<forall>c'\<in>set pre. cond_Type c' \<noteq> NodeReady) \<and> cond_Type c = NodeReady
    \<longrightarrow> getNodeReadinessStatus nodeList ip = (cond_Status c, None))
   \<and> (getNodeByInternalIP nodeList ip = Inl err
    \<longrightarrow> getNodeReadinessStatus nodeList ip = ('''', Some err))
   \<and> (getNodeByInternalIP nodeList ip = Inr node
      \<and> (\<forall>c'\<in>set (Conditions (node_Status node)). cond_Type c' \<noteq> NodeReady)
    \<longrightarrow> getNodeReadinessStatus nodeList ip
          = ('''', Some (Errorf (''node '' @ ip @ '' has no readiness condition''))))"
  using conditionLoop_None [of "Conditions (node_Status node)"]
  by (auto simp: getNodeReadinessStatus_def conditionLoop_first)

theorem getNodeReadinessStatus_first_ready_or_error_witness:
  "getNodeByInternalIP (Inr [sample_node]) ''10.5.0.2'' = Inr sample_node
   \<and> Conditions (node_Status sample_node)
       = [\<lparr>cond_Type = ''MemoryPressure'', cond_Status = ''False''\<rparr>]
         @ \<lparr>cond_Type = ''Ready'', cond_Status = ''True''\<rparr> # []
   \<and> getNodeReadinessStatus (Inr [sample_node]) ''10.5.0.2'' = (''True'', None)
   \<and> getNodeByInternalIP (Inl (ApiError ''connection refused'')) ''10.5.0.2''
       = Inl (ApiError ''connection refused'')
   \<and> getNodeReadinessStatus (Inl (ApiError ''connection refused'')) ''10.5.0.2''
       = ('''', Some (ApiError ''connection refused''))
   \<and> getNodeByInternalIP (Inr [sample_node\<lparr>node_Status := \<lparr>Conditions = [],
          Addresses = Addresses (node_Status sample_node)\<rparr>\<rparr>]) ''10.5.0.2''
       = Inr (sample_node\<lparr>node_Status := \<lparr>Conditions = [],
          Addresses = Addresses (node_Status sample_node)\<rparr>\<rparr>)
   \<and> getNodeReadinessStatus (Inr [sample_node\<lparr>node_Status := \<lparr>Conditions = [],
          Addresses = Addresses (node_Status sample_node)\<rparr>\<rparr>]) ''10.5.0.2''
       = ('''', Some (Errorf ''node 10.5.0.2 has no readiness condition''))"
  using getNodeReadinessStatus_first_ready_or_error
      [of "Inr [sample_node]" "''10.5.0.2''" sample_node
          "[\<lparr>cond_Type = ''MemoryPressure'', cond_Status = ''False''\<rparr>]"
          "\<lparr>cond_Type = ''Ready'', cond_Status = ''True''\<rparr>" "[]"]
    getNodeReadinessStatus_first_ready_or_error
      [of "Inl (ApiError ''connection refused'')" "''10.5.0.2''" _ _ _ _
          "ApiError ''connection refused''"]
    getNodeReadinessStatus_first_ready_or_error
      [of "Inr [sample_node\<lparr>node_Status := \<lparr>Conditions = [],
          Addresses = Addresses (node_Status sample_node)\<rparr>\<rparr>]" "''10.5.0.2''"
          "sample_node\<lparr>node_Status := \<lparr>Conditions = [],
          Addresses = Addresses (node_Status sample_node)\<rparr>\<rparr>"]
  by (simp add: sample_node_def getNodeByInternalIP_def NodeInternalIP_def NodeReady_def)

lemma retryLoop_None:
  "retryLoop n f k errs = None \<Longrightarrow> \<exists>j. k \<le> j \<and> j \<le> k + n \<and> f j = None"
proof (induction n arbitrary: k errs)
  case 0
  then show ?case by (auto split: option.splits if_splits)
next
  case (Suc n)
  show ?case
  proof (cases "f k")
    case None
    then show ?thesis by auto
  next
    case (Some err)
    with Suc.prems have "retryLoop n f (Suc k) (appendError errs err) = None"
      by (simp split: if_splits)
    from Suc.IH [OF this] obtain j where "Suc k \<le> j" "j \<le> Suc k + n" "f j = None"
      by blast
    then show ?thesis by (intro exI [of _ j]) simp
  qed
qed

lemma retryLoop_Some:
  "\<forall>j. k \<le> j \<and> j \<le> k + n \<longrightarrow> f j \<noteq> None \<Longrightarrow> retryLoop n f k errs \<noteq> None"
proof (induction n arbitrary: k errs)
  case 0
  then show ?case by (auto split: option.splits)
next
  case (Suc n)
  from Suc.prems obtain err where fk: "f k = Some err" by (cases "f k") auto
  have "\<forall>j. Suc k \<le> j \<and> j \<le> Suc k + n \<longrightarrow> f j \<noteq> None"
    using Suc.prems by simp
  from Suc.IH [OF this] show ?case using fk by simp
qed

text \<open>
  C6. For every node IP and predicate checkFn, waitForNodeReadinessStatus returns nil only
  if one of the polls made before the deadline observed a readiness status for which checkFn
  holds; and if every poll up to the deadline yields a status that fails checkFn, it returns
  a non-nil error.
\<close>

theorem waitForNodeReadinessStatus_contract:
  "(waitForNodeReadinessStatus further nodeLists ip checkFn = None
    \<longrightarrow> (\<exists>k\<le>further. \<exists>status.
          getNodeReadinessStatus (nodeLists k) ip = (status, None) \<and> checkFn status))
   \<and> ((\<forall>k\<le>further. \<exists>status.
          getNodeReadinessStatus (nodeLists k) ip = (status, None) \<and> \<not> checkFn status)
    \<longrightarrow> waitForNodeReadinessStatus further nodeLists ip checkFn \<noteq> None)"
proof (intro conjI impI)
  let ?f = "\<lambda>k. (case getNodeReadinessStatus (nodeLists k) ip of
          (readinessStatus, Some err) \<Rightarrow> Some err
        | (readinessStatus, None) \<Rightarrow>
            (if \<not> checkFn readinessStatus
             then Some (ExpectedError (Errorf (''node readiness status is '' @ readinessStatus)))
             else None))"
  {
    assume "waitForNodeReadinessStatus further nodeLists ip checkFn = None"
    then have "retryLoop further ?f 0 [] = None"
      by (simp add: waitForNodeReadinessStatus_def Retry_def)
    from retryLoop_None [OF this] obtain j where j: "j \<le> further" "?f j = None"
      by auto
    obtain status err where g: "getNodeReadinessStatus (nodeLists j) ip = (status, err)"
      by (cases "getNodeReadinessStatus (nodeLists j) ip")
    with j(2) have "err = None \<and> checkFn status"
      by (cases err) (auto split: if_splits)
    with g j(1) show "\<exists>k\<le>further. \<exists>status.
          getNodeReadinessStatus (nodeLists k) ip = (status, None) \<and> checkFn status"
      by blast
  }
  {
    assume a: "\<forall>k\<le>further. \<exists>status.
          getNodeReadinessStatus (nodeLists k) ip = (status, None) \<and> \<not> checkFn status"
    have "\<forall>j. 0 \<le> j \<and> j \<le> 0 + further \<longrightarrow> ?f j \<noteq> None"
    proof (intro allI impI)
      fix j assume "0 \<le> j \<and> j \<le> 0 + further"
      with a obtain status where
        "getNodeReadinessStatus (nodeLists j) ip = (status, None)" "\<not> checkFn status"
        by auto
      then show "?f j \<noteq> None" by simp
    qed
    from retryLoop_Some [OF this]
    show "waitForNodeReadinessStatus further nodeLists ip checkFn \<noteq> None"
      by (simp add: waitForNodeReadinessStatus_def Retry_def)
  }
qed

theorem waitForNodeReadinessStatus_contract_witness:
  "waitForNodeReadinessStatus 2 (\<lambda>k. Inr [sample_node]) ''10.5.0.2'' nodeReady = None
   \<and> (\<exists>k\<le>(2::nat). \<exists>status.
         getNodeReadinessStatus ((\<lambda>k. Inr [sample_node]) k) ''10.5.0.2'' = (status, None)
         \<and> nodeReady status)
   \<and> getNodeReadinessStatus (Inr [sample_node]) ''10.5.0.2'' = (''True'', None)
   \<and> \<not> nodeNotReady ''True''
   \<and> waitForNodeReadinessStatus 2 (\<lambda>k. Inr [sample_node]) ''10.5.0.2'' nodeNotReady \<noteq> None"
proof -
  have status: "getNodeReadinessStatus (Inr [sample_node]) ''10.5.0.2'' = (''True'', None)"
    by (simp add: getNodeReadinessStatus_def getNodeByInternalIP_def sample_node_def
        NodeInternalIP_def NodeReady_def)
  have returns: "waitForNodeReadinessStatus 2 (\<lambda>k. Inr [sample_node]) ''10.5.0.2'' nodeReady = None"
    by (simp add: waitForNodeReadinessStatus_def Retry_def status nodeReady_def
        ConditionTrue_def numeral_2_eq_2)
  have never: "\<forall>k\<le>(2::nat). \<exists>status.
         getNodeReadinessStatus ((\<lambda>k. Inr [sample_node]) k) ''10.5.0.2'' = (status, None)
         \<and> \<not> nodeNotReady status"
    by (simp add: status nodeNotReady_def ConditionTrue_def)
  note found = waitForNodeReadinessStatus_contract
      [of 2 "\<lambda>k. Inr [sample_node]" "''10.5.0.2''" nodeReady, THEN conjunct1, THEN mp, OF returns]
  note fails = waitForNodeReadinessStatus_contract
      [of 2 "\<lambda>k. Inr [sample_node]" "''10.5.0.2''" nodeNotReady, THEN conjunct2, THEN mp, OF never]
  have unready: "\<not> nodeNotReady ''True''"
    by (simp add: nodeNotReady_def ConditionTrue_def)
  from returns found status unready fails show ?thesis
    by (intro conjI)
qed

section \<open>Properties of updateEndpointURL\<close>

lemma updateEndpointURL_Inr:
  assumes "updateEndpointURL suite w nodeIP newURL = Inr (oldURL, w')"
  obtains cfg newEndpointURL u bytes where
    "ReadConfigFromNode suite w nodeIP = Inr (V1Alpha1 cfg)"
    "Parse suite newURL = Inr newEndpointURL"
    "endpointURL cfg = Inr u"
    "oldURL = String suite u"
    "Bytes suite (setEndpointURL cfg newEndpointURL) = Inr bytes"
    "ApplyConfiguration suite w nodeIP \<lparr>req_Data = bytes, req_Mode = NO_REBOOT\<rparr> = Inr w'"
  using assms
  by (auto simp: updateEndpointURL_def Let_def split: sum.splits Provider.splits)

lemma endpointURL_Inr:
  assumes "endpointURL cfg = Inr u"
  obtains cluster controlPlane endpoint where
    "ClusterConfig cfg = Some cluster" "ControlPlane cluster = Some controlPlane"
    "Endpoint controlPlane = Some endpoint" "URL endpoint = Some u"
  using assms by (auto simp: endpointURL_def split: option.splits)

lemma setEndpointURL_restore:
  assumes "endpointURL cfg = Inr u"
  shows "setEndpointURL (setEndpointURL cfg v) u = cfg"
proof -
  from assms obtain cluster controlPlane endpoint where
    "ClusterConfig cfg = Some cluster" "ControlPlane cluster = Some controlPlane"
    "Endpoint controlPlane = Some endpoint" "URL endpoint = Some u"
    by (rule endpointURL_Inr)
  then show ?thesis by (simp add: setEndpointURL_def)
qed

lemma endpointURL_setEndpointURL:
  assumes "endpointURL cfg = Inr u"
  shows "endpointURL (setEndpointURL cfg v) = Inr v"
proof -
  from assms obtain cluster controlPlane endpoint where
    "ClusterConfig cfg = Some cluster" "ControlPlane cluster = Some controlPlane"
    "Endpoint controlPlane = Some endpoint"
    by (rule endpointURL_Inr)
  then show ?thesis by (simp add: setEndpointURL_def endpointURL_def)
qed

text \<open>
  C5. The configuration that updateEndpointURL serializes and applies to the node differs
  from the configuration it read from the node only in the field
  ClusterConfig.ControlPlane.Endpoint.URL, which holds the parsed new URL; every other field
  is the one that was read.
\<close>

theorem updateEndpointURL_frame:
  assumes "updateEndpointURL suite w nodeIP newURL = Inr (oldURL, w')"
  shows "\<exists>cfg cfg' newEndpointURL bytes.
      ReadConfigFromNode suite w nodeIP = Inr (V1Alpha1 cfg)
    \<and> Parse suite newURL = Inr newEndpointURL
    \<and> Bytes suite cfg' = Inr bytes
    \<and> ApplyConfiguration suite w nodeIP \<lparr>req_Data = bytes, req_Mode = NO_REBOOT\<rparr> = Inr w'
    \<and> ConfigOther cfg' = ConfigOther cfg
    \<and> (\<exists>cluster cluster' controlPlane controlPlane' endpoint endpoint'.
          ClusterConfig cfg = Some cluster \<and> ClusterConfig cfg' = Some cluster'
        \<and> ClusterOther cluster' = ClusterOther cluster
        \<and> ControlPlane cluster = Some controlPlane \<and> ControlPlane cluster' = Some controlPlane'
        \<and> ControlPlaneOther controlPlane' = ControlPlaneOther controlPlane
        \<and> Endpoint controlPlane = Some endpoint \<and> Endpoint controlPlane' = Some endpoint'
        \<and> URL endpoint' = Some newEndpointURL)"
proof -
  from assms obtain cfg newEndpointURL u bytes where
    r: "ReadConfigFromNode suite w nodeIP = Inr (V1Alpha1 cfg)"
    and p: "Parse suite newURL = Inr newEndpointURL"
    and e: "endpointURL cfg = Inr u"
    and b: "Bytes suite (setEndpointURL cfg newEndpointURL) = Inr bytes"
    and a: "ApplyConfiguration suite w nodeIP \<lparr>req_Data = bytes, req_Mode = NO_REBOOT\<rparr> = Inr w'"
    by (rule updateEndpointURL_Inr)
  from e obtain cluster controlPlane endpoint where
    path: "ClusterConfig cfg = Some cluster" "ControlPlane cluster = Some controlPlane"
      "Endpoint controlPlane = Some endpoint"
    by (rule endpointURL_Inr)
  let ?cfg' = "setEndpointURL cfg newEndpointURL"
  have other: "ConfigOther ?cfg' = ConfigOther cfg"
    by (simp add: setEndpointURL_def)
  have inner: "\<exists>cluster cluster' controlPlane controlPlane' endpoint endpoint'.
          ClusterConfig cfg = Some cluster \<and> ClusterConfig ?cfg' = Some cluster'
        \<and> ClusterOther cluster' = ClusterOther cluster
        \<and> ControlPlane cluster = Some controlPlane \<and> ControlPlane cluster' = Some controlPlane'
        \<and> ControlPlaneOther controlPlane' = ControlPlaneOther controlPlane
        \<and> Endpoint controlPlane = Some endpoint \<and> Endpoint controlPlane' = Some endpoint'
        \<and> URL endpoint' = Some newEndpointURL"
    using path by (simp add: setEndpointURL_def)
  from r p b a other inner show ?thesis by blast
qed

theorem updateEndpointURL_frame_witness:
  "updateEndpointURL sample_suite sample_config ''10.5.0.2'' ''https://127.0.0.1:40443''
     = Inr (''https://10.5.0.2:6443'', setEndpointURL sample_config ''https://127.0.0.1:40443'')
   \<and> (\<exists>cfg cfg' newEndpointURL bytes.
      ReadConfigFromNode sample_suite sample_config ''10.5.0.2'' = Inr (V1Alpha1 cfg)
    \<and> Parse sample_suite ''https://127.0.0.1:40443'' = Inr newEndpointURL
    \<and> Bytes sample_suite cfg' = Inr bytes
    \<and> ApplyConfiguration sample_suite sample_config ''10.5.0.2''
          \<lparr>req_Data = bytes, req_Mode = NO_REBOOT\<rparr>
        = Inr (setEndpointURL sample_config ''https://127.0.0.1:40443'')
    \<and> ConfigOther cfg' = ConfigOther cfg
    \<and> (\<exists>cluster cluster' controlPlane controlPlane' endpoint endpoint'.
          ClusterConfig cfg = Some cluster \<and> ClusterConfig cfg' = Some cluster'
        \<and> ClusterOther cluster' = ClusterOther cluster
        \<and> ControlPlane cluster = Some controlPlane \<and> ControlPlane cluster' = Some controlPlane'
        \<and> ControlPlaneOther controlPlane' = ControlPlaneOther controlPlane
        \<and> Endpoint controlPlane = Some endpoint \<and> Endpoint controlPlane' = Some endpoint'
        \<and> URL endpoint' = Some newEndpointURL))"
proof -
  have run: "updateEndpointURL sample_suite sample_config ''10.5.0.2'' ''https://127.0.0.1:40443''
     = Inr (''https://10.5.0.2:6443'', setEndpointURL sample_config ''https://127.0.0.1:40443'')"
    by (simp add: updateEndpointURL_def sample_suite_def sample_config_def endpointURL_def)
  from run updateEndpointURL_frame [OF run] show ?thesis
    by (rule conjI)
qed

text \<open>
  C4. updateEndpointURL returns the endpoint URL the node configuration held before the
  call. When the node hands back the configuration that was applied to it, and the returned
  URL text parses back to the URL it was printed from, a second call with the returned value
  applies the configuration that was read at first: the original endpoint URL is restored,
  and the second call returns the URL the first call had set.
\<close>

theorem updateEndpointURL_round_trip:
  assumes read0: "ReadConfigFromNode suite w nodeIP = Inr (V1Alpha1 cfg0)"
    and url0: "endpointURL cfg0 = Inr u0"
    and parse_new: "Parse suite newURL = Inr newEndpointURL"
    and first: "updateEndpointURL suite w nodeIP newURL = Inr (oldURL, w1)"
    and read1: "ReadConfigFromNode suite w1 nodeIP
                  = Inr (V1Alpha1 (setEndpointURL cfg0 newEndpointURL))"
    and parse_old: "Parse suite (String suite u0) = Inr u0"
    and second: "updateEndpointURL suite w1 nodeIP oldURL = Inr (oldURL', w2)"
  shows "oldURL = String suite u0
    \<and> oldURL' = String suite newEndpointURL
    \<and> (\<exists>bytes. Bytes suite cfg0 = Inr bytes
          \<and> ApplyConfiguration suite w1 nodeIP \<lparr>req_Data = bytes, req_Mode = NO_REBOOT\<rparr>
              = Inr w2)"
proof -
  from first read0 url0 have old: "oldURL = String suite u0"
    by (auto elim!: updateEndpointURL_Inr)
  from second obtain cfg1 parsed u1 bytes where
    r: "ReadConfigFromNode suite w1 nodeIP = Inr (V1Alpha1 cfg1)"
    and p: "Parse suite oldURL = Inr parsed"
    and e: "endpointURL cfg1 = Inr u1"
    and o: "oldURL' = String suite u1"
    and b: "Bytes suite (setEndpointURL cfg1 parsed) = Inr bytes"
    and a: "ApplyConfiguration suite w1 nodeIP \<lparr>req_Data = bytes, req_Mode = NO_REBOOT\<rparr> = Inr w2"
    by (rule updateEndpointURL_Inr)
  from r read1 have cfg1: "cfg1 = setEndpointURL cfg0 newEndpointURL" by simp
  from p old parse_old have parsed: "parsed = u0" by simp
  from e cfg1 endpointURL_setEndpointURL [OF url0, of newEndpointURL]
  have u1: "u1 = newEndpointURL" by simp
  have "setEndpointURL cfg1 parsed = cfg0"
    unfolding cfg1 parsed by (rule setEndpointURL_restore [OF url0])
  with b a old o u1 show ?thesis by auto
qed

theorem updateEndpointURL_round_trip_witness:
  "updateEndpointURL sample_suite sample_config ''10.5.0.2'' ''https://127.0.0.1:40443''
     = Inr (''https://10.5.0.2:6443'', setEndpointURL sample_config ''https://127.0.0.1:40443'')
   \<and> updateEndpointURL sample_suite (setEndpointURL sample_config ''https://127.0.0.1:40443'')
         ''10.5.0.2'' ''https://10.5.0.2:6443''
     = Inr (''https://127.0.0.1:40443'', sample_config)
   \<and> ''https://10.5.0.2:6443'' = String sample_suite ''https://10.5.0.2:6443''
   \<and> ''https://127.0.0.1:40443'' = String sample_suite ''https://127.0.0.1:40443''
   \<and> (\<exists>bytes. Bytes sample_suite sample_config = Inr bytes
          \<and> ApplyConfiguration sample_suite
                (setEndpointURL sample_config ''https://127.0.0.1:40443'') ''10.5.0.2''
                \<lparr>req_Data = bytes, req_Mode = NO_REBOOT\<rparr>
              = Inr sample_config)"
proof -
  have read0: "ReadConfigFromNode sample_suite sample_config ''10.5.0.2''
      = Inr (V1Alpha1 sample_config)"
    by (simp add: sample_suite_def)
  have url0: "endpointURL sample_config = Inr ''https://10.5.0.2:6443''"
    by (simp add: endpointURL_def sample_config_def)
  have parse_new: "Parse sample_suite ''https://127.0.0.1:40443'' = Inr ''https://127.0.0.1:40443''"
    by (simp add: sample_suite_def)
  have first: "updateEndpointURL sample_suite sample_config ''10.5.0.2''
      ''https://127.0.0.1:40443''
     = Inr (''https://10.5.0.2:6443'', setEndpointURL sample_config ''https://127.0.0.1:40443'')"
    by (simp add: updateEndpointURL_def sample_suite_def sample_config_def endpointURL_def)
  have read1: "ReadConfigFromNode sample_suite
        (setEndpointURL sample_config ''https://127.0.0.1:40443'') ''10.5.0.2''
      = Inr (V1Alpha1 (setEndpointURL sample_config ''https://127.0.0.1:40443''))"
    by (simp add: sample_suite_def)
  have parse_old: "Parse sample_suite (String sample_suite ''https://10.5.0.2:6443'')
      = Inr ''https://10.5.0.2:6443''"
    by (simp add: sample_suite_def)
  have second: "updateEndpointURL sample_suite
        (setEndpointURL sample_config ''https://127.0.0.1:40443'') ''10.5.0.2''
        ''https://10.5.0.2:6443''
      = Inr (''https://127.0.0.1:40443'', sample_config)"
    by (simp add: updateEndpointURL_def sample_suite_def sample_config_def endpointURL_def
        setEndpointURL_def)
  from first second
    updateEndpointURL_round_trip [OF read0 url0 parse_new first read1 parse_old second]
  show ?thesis by (intro conjI) simp_all
qed

section \<open>Properties of the resource store\<close>

lemma Update_Inr:
  assumes "Update store caller rid expectedVersion mutateFn = Inr (r', store')"
  obtains r where "store rid = Some r" "md_version (Metadata r) = expectedVersion"
    "md_version (Metadata r') = nextVersion (md_version (Metadata r))"
    "store' = store(rid \<mapsto> r')"
  using assms
  by (auto simp: Update_def Let_def bumpVersion_def split: option.splits if_splits prod.splits)

lemma nextVersion_neq: "nextVersion v \<noteq> v"
  by (cases v) (simp_all add: nextVersion_def)

text \<open>
  C1. For every successful Update of a resource, the Version returned is strictly greater
  than the prior Version of the resource, namely the prior Version plus one, and the prior
  Version was the expected one; a subsequent Update that passes the prior, now stale,
  Version as its expected version fails with VersionConflict, whoever calls it and whatever
  the mutation. The update of the control-plane endpoint at Version V is an instance.
\<close>

theorem Update_bumps_version:
  assumes "store rid = Some r"
    and "Update store caller rid expectedVersion mutateFn = Inr (r', store')"
  shows "expectedVersion = md_version (Metadata r)
    \<and> versionNumber (md_version (Metadata r)) < versionNumber (md_version (Metadata r'))
    \<and> versionNumber (md_version (Metadata r')) = versionNumber (md_version (Metadata r)) + 1
    \<and> Get store' rid = Some r'
    \<and> Update store' caller' rid (md_version (Metadata r)) mutateFn' = Inl VersionConflict"
proof -
  from assms(2) obtain r0 where r0: "store rid = Some r0"
    and expected: "md_version (Metadata r0) = expectedVersion"
    and bumped: "md_version (Metadata r') = nextVersion (md_version (Metadata r0))"
    and store': "store' = store(rid \<mapsto> r')"
    by (rule Update_Inr)
  from r0 assms(1) have same: "r0 = r" by simp
  have stale: "md_version (Metadata r') \<noteq> md_version (Metadata r)"
    using bumped same by (simp add: nextVersion_neq)
  have "Update store' caller' rid (md_version (Metadata r)) mutateFn' = Inl VersionConflict"
    using stale by (simp add: Update_def store')
  moreover have "Get store' rid = Some r'"
    by (simp add: Get_def store')
  ultimately show ?thesis
    using expected bumped same by (simp add: nextVersion_def)
qed

theorem Update_bumps_version_witness:
  "endpoint_store endpoint_id = Some endpoint_resource
   \<and> md_version (Metadata endpoint_resource) = VersionNumber 7
   \<and> (\<exists>r' store'.
         Update endpoint_store (Some ''config.EndpointController'') endpoint_id (VersionNumber 7)
             (set_url ''https://127.0.0.1:40443'') = Inr (r', store')
       \<and> md_version (Metadata r') = VersionNumber 8
       \<and> Spec r' = ''https://127.0.0.1:40443''
       \<and> Get store' endpoint_id = Some r'
       \<and> Update store' (Some ''config.EndpointController'') endpoint_id (VersionNumber 7)
             (set_url ''https://127.0.0.1:40443'') = Inl VersionConflict)"
proof -
  define r' where "r' = bumpVersion (endpoint_resource\<lparr>Spec := ''https://127.0.0.1:40443''\<rparr>)"
  define store' where "store' = endpoint_store(endpoint_id \<mapsto> r')"
  have held: "endpoint_store endpoint_id = Some endpoint_resource"
    by (simp add: endpoint_store_def)
  have prior: "md_version (Metadata endpoint_resource) = VersionNumber 7"
    by (simp add: endpoint_resource_def)
  have run: "Update endpoint_store (Some ''config.EndpointController'') endpoint_id
      (VersionNumber 7) (set_url ''https://127.0.0.1:40443'') = Inr (r', store')"
    by (simp add: Update_def Let_def held set_url_def r'_def store'_def endpoint_resource_def)
  have bumped: "md_version (Metadata r') = VersionNumber 8"
    by (simp add: r'_def bumpVersion_def nextVersion_def endpoint_resource_def)
  have spec: "Spec r' = ''https://127.0.0.1:40443''"
    by (simp add: r'_def bumpVersion_def)
  note inst = Update_bumps_version [OF held run,
      of "Some ''config.EndpointController''" "set_url ''https://127.0.0.1:40443''"]
  from inst have get: "Get store' endpoint_id = Some r'" by simp
  from inst prior have stale: "Update store' (Some ''config.EndpointController'') endpoint_id
      (VersionNumber 7) (set_url ''https://127.0.0.1:40443'') = Inl VersionConflict"
    by simp
  from held prior run bumped spec get stale show ?thesis by blast
qed

lemma Destroy_Inr:
  assumes "Destroy store rid v = Inr store'"
  obtains r where "store rid = Some r" "md_finalizers (Metadata r) = {}"
    "md_phase (Metadata r) = PhaseTearingDown" "md_version (Metadata r) = v"
    "store' = store(rid := None)"
  using assms by (auto simp: Destroy_def split: option.splits if_splits)

lemma Destroy_held:
  assumes "store rid = Some r" "md_finalizers (Metadata r) \<noteq> {}"
  shows "Destroy store rid v = Inl Conflict"
  using assms by (simp add: Destroy_def)

lemma calls_Destroy_held:
  assumes "store rid = Some r" "md_finalizers (Metadata r) \<noteq> {}"
  shows "calls store (replicate n (CallDestroy rid v)) = (store, replicate n (Some Conflict))"
proof -
  have held: "Destroy store rid v = Inl Conflict"
    using assms by (rule Destroy_held)
  show ?thesis
    by (induction n) (simp_all add: held)
qed

lemma Create_keeps:
  "Create store resource = Inr (r', store') \<Longrightarrow> store rid = Some r \<Longrightarrow> store' rid \<noteq> None"
  by (auto simp: Create_def Let_def split: if_splits)

lemma Update_keeps:
  "Update store caller rid' v f = Inr (r', store') \<Longrightarrow> store rid = Some r \<Longrightarrow> store' rid \<noteq> None"
  by (auto elim!: Update_Inr)

lemma MarkForDestroy_keeps:
  "MarkForDestroy store rid' = Inr store' \<Longrightarrow> store rid = Some r \<Longrightarrow> store' rid \<noteq> None"
  by (auto simp: MarkForDestroy_def split: option.splits if_splits)

lemma AddFinalizer_keeps:
  "AddFinalizer store rid' token = Inr store' \<Longrightarrow> store rid = Some r \<Longrightarrow> store' rid \<noteq> None"
  by (auto simp: AddFinalizer_def split: option.splits if_splits)

lemma RemoveFinalizer_removes:
  assumes "RemoveFinalizer store rid' token = Inr store'" "store rid = Some r" "store' rid = None"
  shows "rid' = rid \<and> md_phase (Metadata r) = PhaseTearingDown
     \<and> md_finalizers (Metadata r) = {token}"
  using assms
  by (auto simp: RemoveFinalizer_def Let_def bumpVersion_def split: option.splits if_splits)

lemma Destroy_removes:
  assumes "Destroy store rid' v = Inr store'" "store rid = Some r" "store' rid = None"
  shows "md_phase (Metadata r) = PhaseTearingDown \<and> md_finalizers (Metadata r) = {}"
  using assms by (auto simp: Destroy_def split: option.splits if_splits)

lemma call_removes:
  assumes "call store c = Inr store'" "store rid = Some r" "store' rid = None"
  shows "md_phase (Metadata r) = PhaseTearingDown
     \<and> (md_finalizers (Metadata r) = {}
        \<or> (\<exists>token. c = CallRemoveFinalizer rid token \<and> md_finalizers (Metadata r) = {token}))"
proof (cases c)
  case (CallCreate resource)
  with assms show ?thesis
    by (cases "Create store resource") (auto dest: Create_keeps)
next
  case (CallUpdate caller rid' v f)
  with assms show ?thesis
    by (cases "Update store caller rid' v f") (auto dest: Update_keeps)
next
  case (CallMarkForDestroy rid')
  with assms show ?thesis by (auto dest: MarkForDestroy_keeps)
next
  case (CallAddFinalizer rid' token)
  with assms show ?thesis by (auto dest: AddFinalizer_keeps)
next
  case (CallRemoveFinalizer rid' token)
  with assms RemoveFinalizer_removes [of store rid' token store' rid r]
  show ?thesis by simp
next
  case (CallDestroy rid' v)
  with assms Destroy_removes [of store rid' v store' rid r]
  show ?thesis by simp
qed

text \<open>
  C2. Destroy succeeds only if the finalizer set of the resource is empty and its Phase is
  Tearing Down. A Destroy attempted while the finalizer set is non-empty fails with Conflict
  and leaves the store as it was, every time it is attempted. A call of the store removes a
  resource only when its Phase is Tearing Down and either its finalizer set is empty or the
  call is the RemoveFinalizer that takes the last finalizer out of it.
\<close>

theorem Destroy_only_when_released:
  "(Destroy store rid v = Inr store'
      \<longrightarrow> (\<exists>r. store rid = Some r \<and> md_finalizers (Metadata r) = {}
             \<and> md_phase (Metadata r) = PhaseTearingDown) \<and> store' rid = None)
   \<and> (store rid = Some r \<and> md_finalizers (Metadata r) \<noteq> {}
      \<longrightarrow> calls store (replicate n (CallDestroy rid v))
            = (store, replicate n (Some Conflict)))
   \<and> (call store c = Inr store'' \<and> store rid = Some r \<and> store'' rid = None
      \<longrightarrow> md_phase (Metadata r) = PhaseTearingDown
          \<and> (md_finalizers (Metadata r) = {}
             \<or> (\<exists>token. c = CallRemoveFinalizer rid token
                  \<and> md_finalizers (Metadata r) = {token})))"
proof (intro conjI impI)
  assume "Destroy store rid v = Inr store'"
  then show "\<exists>r. store rid = Some r \<and> md_finalizers (Metadata r) = {}
             \<and> md_phase (Metadata r) = PhaseTearingDown"
    by (auto elim!: Destroy_Inr)
next
  assume "Destroy store rid v = Inr store'"
  then show "store' rid = None" by (auto elim!: Destroy_Inr)
next
  assume "store rid = Some r \<and> md_finalizers (Metadata r) \<noteq> {}"
  then show "calls store (replicate n (CallDestroy rid v)) = (store, replicate n (Some Conflict))"
    by (simp add: calls_Destroy_held)
next
  assume a: "call store c = Inr store'' \<and> store rid = Some r \<and> store'' rid = None"
  then show "md_phase (Metadata r) = PhaseTearingDown"
    using call_removes [of store c store'' rid r] by simp
  from a show "md_finalizers (Metadata r) = {}
             \<or> (\<exists>token. c = CallRemoveFinalizer rid token
                  \<and> md_finalizers (Metadata r) = {token})"
    using call_removes [of store c store'' rid r] by simp
qed

theorem Destroy_only_when_released_witness:
  "Destroy released_store endpoint_id (VersionNumber 9) = Inr (released_store(endpoint_id := None))
   \<and> (\<exists>r. released_store endpoint_id = Some r \<and> md_finalizers (Metadata r) = {}
          \<and> md_phase (Metadata r) = PhaseTearingDown)
   \<and> held_store endpoint_id = Some held_resource
   \<and> md_finalizers (Metadata held_resource) \<noteq> {}
   \<and> calls held_store (replicate 3 (CallDestroy endpoint_id (VersionNumber 9)))
       = (held_store, replicate 3 (Some Conflict))
   \<and> call held_store (CallRemoveFinalizer endpoint_id ''kubelet'')
       = Inr (held_store(endpoint_id := None))
   \<and> md_phase (Metadata held_resource) = PhaseTearingDown
   \<and> md_finalizers (Metadata held_resource) = {''kubelet''}"
proof -
  have destroyed: "Destroy released_store endpoint_id (VersionNumber 9)
      = Inr (released_store(endpoint_id := None))"
    by (simp add: Destroy_def released_store_def held_resource_def)
  have held: "held_store endpoint_id = Some held_resource"
    by (simp add: held_store_def)
  have fins: "md_finalizers (Metadata held_resource) \<noteq> {}"
    by (simp add: held_resource_def)
  have removed: "call held_store (CallRemoveFinalizer endpoint_id ''kubelet'')
      = Inr (held_store(endpoint_id := None))"
    by (simp add: RemoveFinalizer_def held bumpVersion_def held_resource_def)
  note released = Destroy_only_when_released
      [of released_store endpoint_id "VersionNumber 9" "released_store(endpoint_id := None)",
       THEN conjunct1, THEN mp, OF destroyed, THEN conjunct1]
  note inst = Destroy_only_when_released
      [of held_store endpoint_id "VersionNumber 9" _ held_resource 3
          "CallRemoveFinalizer endpoint_id ''kubelet''" "held_store(endpoint_id := None)"]
  from inst held fins have again: "calls held_store (replicate 3 (CallDestroy endpoint_id (VersionNumber 9)))
       = (held_store, replicate 3 (Some Conflict))"
    by simp
  from inst held removed fins have last: "md_phase (Metadata held_resource) = PhaseTearingDown
    \<and> md_finalizers (Metadata held_resource) = {''kubelet''}"
    by simp
  from destroyed released held fins again removed last show ?thesis
    by (intro conjI) simp_all
qed

end
